theory Spec2Isabelle
  imports Main "HOL-Library.Sublist"
begin

section \<open>Shell command execution with background jobs (src/tools/bash.ts)\<close>

text \<open>
  The two tool handlers of \<^verbatim>\<open>registerBash\<close> are event driven: a spawned child process
  reports its output and its end through the events \<^verbatim>\<open>data\<close>, \<^verbatim>\<open>close\<close> and \<^verbatim>\<open>error\<close>,
  timers report through their callbacks, and each callback mutates either a job object of
  the module-wide table \<^verbatim>\<open>backgroundJobs\<close> or the variables of one foreground call.
  The embedding keeps that shape: every callback is a function on the state it mutates,
  the events are the inputs, and a run is a fold of the callbacks over the events in the
  order the event loop delivers them. A handler's return value is the
  \<^verbatim>\<open>structuredContent\<close> of \<^verbatim>\<open>jsonResult\<close> (the text rendering of the same data is not
  modelled). A JavaScript string is held in its UTF-8 form, so a \<open>string\<close> here is
  the byte sequence of the text, and a \<^verbatim>\<open>data\<close> chunk is the bytes of its \<^verbatim>\<open>Buffer\<close>.
\<close>

subsection \<open>JavaScript helpers\<close>

text \<open>\<^verbatim>\<open>a ?? b\<close>: the right operand only when the left one is null or undefined.\<close>

definition nullish :: "'a option \<Rightarrow> 'a \<Rightarrow> 'a" where
  "nullish v d = (case v of None \<Rightarrow> d | Some x \<Rightarrow> x)"

text \<open>\<^verbatim>\<open>s.substring(a, b)\<close>: both indices are clamped to the length and swapped when
  they are out of order.\<close>

definition substring :: "string \<Rightarrow> nat \<Rightarrow> nat \<Rightarrow> string" where
  "substring s a b =
     (let a' = min a (length s); b' = min b (length s);
          lo = min a' b'; hi = max a' b'
      in take (hi - lo) (drop lo s))"

text \<open>The decimal rendering of an integer, as a template literal \<^verbatim>\<open>${n}\<close> prints it
  (JavaScript prints integers in plain decimal digits up to \<open>10\<^sup>2\<^sup>1\<close>).\<close>

definition digit_char :: "nat \<Rightarrow> char" where
  "digit_char d = ''0123456789'' ! d"

fun show_nat :: "nat \<Rightarrow> string" where
  "show_nat n = (if n < 10 then [digit_char n] else show_nat (n div 10) @ [digit_char (n mod 10)])"

declare show_nat.simps [simp del]

definition show_int :: "int \<Rightarrow> string" where
  "show_int i = (if i < 0 then CHR ''-'' # show_nat (nat (- i)) else show_nat (nat i))"

definition newline :: char where
  "newline = CHR 0x0A"

subsection \<open>What the runtime does with a chunk and with a timer delay\<close>

text \<open>
  \<^verbatim>\<open>data.toString()\<close> decodes the bytes of one chunk as UTF-8, on its own: every
  well-formed sequence gives its character, and every ill-formed part (a byte that can
  start no sequence, or a sequence cut short by the next byte or by the end of the chunk)
  gives the replacement character U+FFFD. With text held in UTF-8 form, decoding copies
  the well-formed sequences and writes the three bytes of U+FFFD for each ill-formed part.
  \<open>decode_from pending needed lo hi\<close> is the decoder in the middle of a sequence:
  \<open>pending\<close> holds the bytes read of it, \<open>needed\<close> counts the bytes still to come, and
  the next byte must lie between \<open>lo\<close> and \<open>hi\<close>.
\<close>

definition replacement :: string where
  "replacement = [CHR 0xEF, CHR 0xBF, CHR 0xBD]"

fun decode_from :: "string \<Rightarrow> nat \<Rightarrow> nat \<Rightarrow> nat \<Rightarrow> string \<Rightarrow> string" where
  "decode_from pending needed lo hi [] = (if needed = 0 then [] else replacement)"
| "decode_from pending needed lo hi (c # cs) =
     (let b = (of_char c :: nat) in
      if needed \<noteq> 0 \<and> lo \<le> b \<and> b \<le> hi
      then (if needed = 1 then pending @ [c] @ decode_from [] 0 0x80 0xBF cs
            else decode_from (pending @ [c]) (needed - 1) 0x80 0xBF cs)
      else (if needed \<noteq> 0 then replacement else []) @
           (if b < 0x80 then c # decode_from [] 0 0x80 0xBF cs
            else if 0xC2 \<le> b \<and> b \<le> 0xDF then decode_from [c] 1 0x80 0xBF cs
            else if 0xE0 \<le> b \<and> b \<le> 0xEF
              then decode_from [c] 2 (if b = 0xE0 then 0xA0 else 0x80)
                     (if b = 0xED then 0x9F else 0xBF) cs
            else if 0xF0 \<le> b \<and> b \<le> 0xF4
              then decode_from [c] 3 (if b = 0xF0 then 0x90 else 0x80)
                     (if b = 0xF4 then 0x8F else 0xBF) cs
            else replacement @ decode_from [] 0 0x80 0xBF cs))"

definition toString :: "string \<Rightarrow> string" where
  "toString d = decode_from [] 0 0x80 0xBF d"

text \<open>Well-formed UTF-8: one to four bytes per character, with the byte ranges of the
  Unicode standard (no overlong forms, no surrogates, nothing above U+10FFFF).\<close>

definition in_range :: "nat \<Rightarrow> nat \<Rightarrow> char \<Rightarrow> bool" where
  "in_range lo hi c = (lo \<le> of_char c \<and> (of_char c :: nat) \<le> hi)"

fun well_formed_utf8 :: "string \<Rightarrow> bool" where
  "well_formed_utf8 [] = True"
| "well_formed_utf8 (c # cs) =
     (let b = (of_char c :: nat) in
      if b < 0x80 then well_formed_utf8 cs
      else if 0xC2 \<le> b \<and> b \<le> 0xDF then
        (case cs of
           c1 # r \<Rightarrow> in_range 0x80 0xBF c1 \<and> well_formed_utf8 r
         | _ \<Rightarrow> False)
      else if 0xE0 \<le> b \<and> b \<le> 0xEF then
        (case cs of
           c1 # c2 # r \<Rightarrow>
             in_range (if b = 0xE0 then 0xA0 else 0x80) (if b = 0xED then 0x9F else 0xBF) c1
             \<and> in_range 0x80 0xBF c2 \<and> well_formed_utf8 r
         | _ \<Rightarrow> False)
      else if 0xF0 \<le> b \<and> b \<le> 0xF4 then
        (case cs of
           c1 # c2 # c3 # r \<Rightarrow>
             in_range (if b = 0xF0 then 0x90 else 0x80) (if b = 0xF4 then 0x8F else 0xBF) c1
             \<and> in_range 0x80 0xBF c2 \<and> in_range 0x80 0xBF c3 \<and> well_formed_utf8 r
         | _ \<Rightarrow> False)
      else False)"

text \<open>
  \<^verbatim>\<open>setTimeout(callback, delay)\<close> keeps a delay between 1 and \<open>2\<^sup>3\<^sup>1 - 1\<close>
  milliseconds and replaces every other delay by 1.
\<close>

definition TIMEOUT_MAX :: int where
  "TIMEOUT_MAX = 2147483647"

definition setTimeout_delay :: "int \<Rightarrow> int" where
  "setTimeout_delay delay = (if 1 \<le> delay \<and> delay \<le> TIMEOUT_MAX then delay else 1)"

subsection \<open>Data model\<close>

definition DEFAULT_TIMEOUT :: int where
  "DEFAULT_TIMEOUT = 5000"

text \<open>What the handlers read of the spawned \<^verbatim>\<open>ChildProcess\<close>: its \<^verbatim>\<open>pid\<close>, which is
  undefined when the process could not be spawned.\<close>

record ChildProcess =
  child_pid :: "nat option"

record BackgroundJob =
  process :: ChildProcess
  stdout :: string
  stderr :: string
  exitCode :: "int option"
  startedAt :: nat

text \<open>The events of a child process that the handlers subscribe to: \<^verbatim>\<open>data\<close> on each
  of the two pipes, with the bytes of the chunk, \<^verbatim>\<open>close\<close> with the exit code (null when
  a signal ended the process) and \<^verbatim>\<open>error\<close> with the error's message.\<close>

datatype child_event =
    StdoutData string
  | StderrData string
  | Close "int option"
  | ProcessError string

datatype error = Error string

text \<open>The arguments of \<^verbatim>\<open>execute\<close> after schema validation. The timeout is a number of
  milliseconds; the model takes it to be an integer.\<close>

record ExecuteArgs =
  command :: string
  timeout :: "int option"
  background :: "bool option"

text \<open>The three result shapes: background execute, foreground execute, job status.\<close>

record BackgroundResult =
  jobId :: string
  pid :: nat

record ExecuteResult =
  res_stdout :: string
  res_stderr :: string
  res_exitCode :: int

record StatusResult =
  st_stdout :: string
  st_stderr :: string
  st_exitCode :: "int option"
  st_running :: bool

subsection \<open>Background jobs: the four callbacks of a job\<close>

definition process_error_note :: "string \<Rightarrow> string" where
  "process_error_note msg = newline # ''Process error: '' @ msg"

definition on_stdout_data :: "BackgroundJob \<Rightarrow> string \<Rightarrow> BackgroundJob" where
  "on_stdout_data job d = job\<lparr>stdout := stdout job @ toString d\<rparr>"

definition on_stderr_data :: "BackgroundJob \<Rightarrow> string \<Rightarrow> BackgroundJob" where
  "on_stderr_data job d = job\<lparr>stderr := stderr job @ toString d\<rparr>"

definition on_close :: "BackgroundJob \<Rightarrow> int option \<Rightarrow> BackgroundJob" where
  "on_close job code = job\<lparr>exitCode := Some (nullish code 1)\<rparr>"

definition on_error :: "BackgroundJob \<Rightarrow> string \<Rightarrow> BackgroundJob" where
  "on_error job msg =
     (let job1 = job\<lparr>stderr := stderr job @ process_error_note msg\<rparr>
      in job1\<lparr>exitCode := Some 1\<rparr>)"

fun job_event :: "BackgroundJob \<Rightarrow> child_event \<Rightarrow> BackgroundJob" where
  "job_event job (StdoutData d) = on_stdout_data job d"
| "job_event job (StderrData d) = on_stderr_data job d"
| "job_event job (Close code) = on_close job code"
| "job_event job (ProcessError msg) = on_error job msg"

definition job_events :: "BackgroundJob \<Rightarrow> child_event list \<Rightarrow> BackgroundJob" where
  "job_events job es = foldl job_event job es"

text \<open>The job object as \<^verbatim>\<open>execute\<close> creates it.\<close>

definition new_job :: "ChildProcess \<Rightarrow> nat \<Rightarrow> BackgroundJob" where
  "new_job child now =
     \<lparr>process = child, stdout = [], stderr = [], exitCode = None, startedAt = now\<rparr>"

subsection \<open>The job table and the two handlers that use it\<close>

text \<open>
  Job objects are shared between the table and the callbacks registered on the child, so
  the state holds them in a store indexed by reference: \<open>heap\<close> maps a reference to the
  object, \<open>next_ref\<close> is the first unused reference, and \<open>backgroundJobs\<close> maps a job id
  to the reference of its object, as the module's \<^verbatim>\<open>Map\<close> does.
\<close>

record server =
  heap :: "nat \<Rightarrow> BackgroundJob"
  next_ref :: nat
  backgroundJobs :: "string \<rightharpoonup> nat"

definition init_server :: server where
  "init_server = \<lparr>heap = (\<lambda>_. new_job \<lparr>child_pid = None\<rparr> 0), next_ref = 0, backgroundJobs = Map.empty\<rparr>"

text \<open>\<^verbatim>\<open>generateJobId\<close>: characters 2 to 9 of \<^verbatim>\<open>Math.random().toString(36)\<close>. The
  random number's base-36 rendering is the argument.\<close>

definition generateJobId :: "string \<Rightarrow> string" where
  "generateJobId random36 = substring random36 2 10"

text \<open>The background branch of \<^verbatim>\<open>execute\<close>. Its inputs besides the state are what the
  environment supplies during the call: the random rendering, the child that \<^verbatim>\<open>spawn\<close>
  returned and the clock. No event of the child is an input.\<close>

definition execute_background ::
  "server \<Rightarrow> string \<Rightarrow> ChildProcess \<Rightarrow> nat \<Rightarrow> BackgroundResult \<times> server" where
  "execute_background s random36 child now =
     (let jid = generateJobId random36;
          r = next_ref s;
          job = new_job child now
      in (\<lparr>jobId = jid, pid = nullish (child_pid child) 0\<rparr>,
          s\<lparr>heap := (heap s)(r := job), next_ref := Suc r,
            backgroundJobs := (backgroundJobs s)(jid \<mapsto> r)\<rparr>))"

definition job_not_found :: "string \<Rightarrow> error" where
  "job_not_found jid = Error (''Job not found: '' @ jid)"

definition get_job_status :: "server \<Rightarrow> string \<Rightarrow> (error + StatusResult) \<times> server" where
  "get_job_status s jid =
     (case backgroundJobs s jid of
        None \<Rightarrow> (Inl (job_not_found jid), s)
      | Some r \<Rightarrow>
          (let job = heap s r;
               running = (exitCode job = None);
               s' = (if \<not> running
                     then s\<lparr>backgroundJobs := (backgroundJobs s)(jid := None)\<rparr>
                     else s)
           in (Inr \<lparr>st_stdout = stdout job, st_stderr = stderr job,
                    st_exitCode = exitCode job, st_running = running\<rparr>, s')))"

text \<open>What can happen to the server between two observations: a background
  \<^verbatim>\<open>execute\<close>, an event of a child delivered to the callbacks of its job (the job is
  named by its reference; no callback exists for an unused reference), or a
  \<^verbatim>\<open>get_job_status\<close> call.\<close>

datatype action =
    ExecuteBackground string ChildProcess nat
  | ChildEvent nat child_event
  | GetJobStatus string

fun step :: "server \<Rightarrow> action \<Rightarrow> server" where
  "step s (ExecuteBackground random36 child now) = snd (execute_background s random36 child now)"
| "step s (ChildEvent r e) =
     (if r < next_ref s then s\<lparr>heap := (heap s)(r := job_event (heap s r) e)\<rparr> else s)"
| "step s (GetJobStatus jid) = snd (get_job_status s jid)"

definition run_actions :: "server \<Rightarrow> action list \<Rightarrow> server" where
  "run_actions s acts = foldl step s acts"

text \<open>The job ids that a list of actions issues.\<close>

fun issued_ids :: "action list \<Rightarrow> string list" where
  "issued_ids [] = []"
| "issued_ids (ExecuteBackground random36 child now # acts) = generateJobId random36 # issued_ids acts"
| "issued_ids (_ # acts) = issued_ids acts"

subsection \<open>Foreground execution: the variables and callbacks of one call\<close>

text \<open>
  A foreground call owns the variables \<^verbatim>\<open>stdout\<close>, \<^verbatim>\<open>stderr\<close> and \<^verbatim>\<open>timedOut\<close>, the
  constant \<^verbatim>\<open>timeout\<close>, and two timers: the deadline timer \<^verbatim>\<open>timeoutId\<close> and the
  timer that the deadline callback starts for the forced kill (the source keeps no name
  for it; here \<open>graceTimer\<close>). A timer field holds the delay the runtime gave a pending
  timer and is \<open>None\<close> when the timer has fired or was cleared. \<open>kills\<close> lists the calls of
  \<^verbatim>\<open>child.kill\<close> in order, and \<open>resolved\<close> is the value of the promise: only the first
  \<^verbatim>\<open>resolve\<close> settles it.
\<close>

datatype signal = SIGTERM | SIGKILL

record foreground =
  fg_stdout :: string
  fg_stderr :: string
  timedOut :: bool
  timeout_ms :: int
  timeoutId :: "int option"
  graceTimer :: "int option"
  kills :: "signal list"
  resolved :: "ExecuteResult option"

datatype fg_event =
    FromChild child_event
  | TimeoutFires
  | GraceTimerFires

definition start_foreground :: "int \<Rightarrow> foreground" where
  "start_foreground t =
     \<lparr>fg_stdout = [], fg_stderr = [], timedOut = False, timeout_ms = t,
      timeoutId = Some (setTimeout_delay t), graceTimer = None, kills = [], resolved = None\<rparr>"

definition resolve :: "foreground \<Rightarrow> ExecuteResult \<Rightarrow> foreground" where
  "resolve s v = (if resolved s = None then s\<lparr>resolved := Some v\<rparr> else s)"

definition clearTimeout :: "foreground \<Rightarrow> foreground" where
  "clearTimeout s = s\<lparr>timeoutId := None\<rparr>"

definition timeout_note :: "int \<Rightarrow> string" where
  "timeout_note t = newline # ''Process timed out after '' @ show_int t @ ''ms''"

definition on_timeout :: "foreground \<Rightarrow> foreground" where
  "on_timeout s =
     s\<lparr>timeoutId := None, timedOut := True, kills := kills s @ [SIGTERM],
       graceTimer := Some (setTimeout_delay 1000)\<rparr>"

definition on_grace_timer :: "foreground \<Rightarrow> foreground" where
  "on_grace_timer s = s\<lparr>graceTimer := None, kills := kills s @ [SIGKILL]\<rparr>"

definition fg_on_close :: "foreground \<Rightarrow> int option \<Rightarrow> foreground" where
  "fg_on_close s code =
     (let s1 = clearTimeout s;
          s2 = (if timedOut s1
                then s1\<lparr>fg_stderr := fg_stderr s1 @ timeout_note (timeout_ms s1)\<rparr>
                else s1)
      in resolve s2
           \<lparr>res_stdout = fg_stdout s2, res_stderr = fg_stderr s2,
            res_exitCode = (if timedOut s2 then 124 else nullish code 1)\<rparr>)"

definition fg_on_error :: "foreground \<Rightarrow> string \<Rightarrow> foreground" where
  "fg_on_error s msg =
     (let s1 = clearTimeout s
      in resolve s1
           \<lparr>res_stdout = fg_stdout s1, res_stderr = fg_stderr s1 @ process_error_note msg,
            res_exitCode = 1\<rparr>)"

text \<open>A timer callback runs only while its timer is pending.\<close>

fun fg_step :: "foreground \<Rightarrow> fg_event \<Rightarrow> foreground" where
  "fg_step s (FromChild (StdoutData d)) = s\<lparr>fg_stdout := fg_stdout s @ toString d\<rparr>"
| "fg_step s (FromChild (StderrData d)) = s\<lparr>fg_stderr := fg_stderr s @ toString d\<rparr>"
| "fg_step s (FromChild (Close code)) = fg_on_close s code"
| "fg_step s (FromChild (ProcessError msg)) = fg_on_error s msg"
| "fg_step s TimeoutFires = (if timeoutId s = None then s else on_timeout s)"
| "fg_step s GraceTimerFires = (if graceTimer s = None then s else on_grace_timer s)"

definition fg_run :: "foreground \<Rightarrow> fg_event list \<Rightarrow> foreground" where
  "fg_run s es = foldl fg_step s es"

subsection \<open>The \<^verbatim>\<open>execute\<close> handler\<close>

text \<open>The handler either registers a background job and returns its result at once, or
  returns the promise of a foreground call, which the events of the call settle.
  \<^verbatim>\<open>spawn\<close> is taken to return a child in both branches; a shell that cannot be started
  shows as a child without pid whose first event is \<^verbatim>\<open>error\<close>.\<close>

datatype execute_outcome =
    Background BackgroundResult server
  | Foreground foreground

definition execute ::
  "server \<Rightarrow> ExecuteArgs \<Rightarrow> string \<Rightarrow> ChildProcess \<Rightarrow> nat \<Rightarrow> execute_outcome" where
  "execute s args random36 child now =
     (let t = nullish (timeout args) DEFAULT_TIMEOUT
      in if background args = Some True
         then (case execute_background s random36 child now of (res, s') \<Rightarrow> Background res s')
         else Foreground (start_foreground t))"

subsection \<open>What a run of events wrote\<close>



text \<open>The text of each pipe: the decoded chunks, joined in the order of arrival.\<close>

fun stdout_of :: "child_event list \<Rightarrow> string" where
  "stdout_of [] = []"
| "stdout_of (StdoutData d # es) = toString d @ stdout_of es"
| "stdout_of (_ # es) = stdout_of es"

fun stderr_of :: "child_event list \<Rightarrow> string" where
  "stderr_of [] = []"
| "stderr_of (StderrData d # es) = toString d @ stderr_of es"
| "stderr_of (_ # es) = stderr_of es"

text \<open>What the callbacks of a background job append to its stderr: the decoded chunks
  of the stderr pipe and the note of each \<^verbatim>\<open>error\<close> event.\<close>

fun stderr_log :: "child_event list \<Rightarrow> string" where
  "stderr_log [] = []"
| "stderr_log (StderrData d # es) = toString d @ stderr_log es"
| "stderr_log (ProcessError msg # es) = process_error_note msg @ stderr_log es"
| "stderr_log (_ # es) = stderr_log es"


fun child_events :: "fg_event list \<Rightarrow> child_event list" where
  "child_events [] = []"
| "child_events (FromChild e # es) = e # child_events es"
| "child_events (_ # es) = child_events es"

fun is_data :: "child_event \<Rightarrow> bool" where
  "is_data (StdoutData d) = True"
| "is_data (StderrData d) = True"
| "is_data _ = False"

fun is_output :: "fg_event \<Rightarrow> bool" where
  "is_output (FromChild e) = is_data e"
| "is_output _ = False"

fun output_or_grace :: "fg_event \<Rightarrow> bool" where
  "output_or_grace GraceTimerFires = True"
| "output_or_grace e = is_output e"

subsection \<open>The life of one job\<close>

text \<open>
  The number of steps of a run at which the exit code of a job goes from absent to
  present.
\<close>

fun exit_sets :: "BackgroundJob \<Rightarrow> child_event list \<Rightarrow> nat" where
  "exit_sets job [] = 0"
| "exit_sets job (e # es) =
     (if exitCode job = None \<and> exitCode (job_event job e) \<noteq> None then 1 else 0)
     + exit_sets (job_event job e) es"

fun is_close :: "child_event \<Rightarrow> bool" where
  "is_close (Close code) = True"
| "is_close _ = False"

text \<open>
  The order in which the runtime emits the events of one child: \<^verbatim>\<open>close\<close> is emitted
  after the process has ended and both pipes are closed, and \<^verbatim>\<open>error\<close> is emitted
  instead of output when the process could not be spawned, followed by \<^verbatim>\<open>close\<close>. So
  once an event other than output has been emitted, only \<^verbatim>\<open>close\<close> can follow. The
  callbacks do not check this order; they rely on it.
\<close>

fun emitter_order :: "child_event list \<Rightarrow> bool" where
  "emitter_order [] = True"
| "emitter_order (e # es) = (if is_data e then emitter_order es else list_all is_close es)"

text \<open>The events that a list of actions delivers to the job object at one reference.\<close>

fun events_for :: "nat \<Rightarrow> action list \<Rightarrow> child_event list" where
  "events_for r [] = []"
| "events_for r (ChildEvent r' e # acts) =
     (if r' = r then e # events_for r acts else events_for r acts)"
| "events_for r (_ # acts) = events_for r acts"

section \<open>Properties\<close>

lemma nullish_simps [simp]: "nullish None d = d" "nullish (Some x) d = x"
  by (simp_all add: nullish_def)

subsection \<open>Decoding and timer delays\<close>


lemma well_formed_ascii:
  "list_all (\<lambda>c. (of_char c :: nat) < 0x80) d \<Longrightarrow> well_formed_utf8 d"
  by (induction d) (simp_all add: Let_def)



lemma setTimeout_delay_grace [simp]: "setTimeout_delay 1000 = 1000"
  by (simp add: setTimeout_delay_def TIMEOUT_MAX_def)

lemma setTimeout_delay_in_range:
  "1 \<le> d \<Longrightarrow> d \<le> 2147483647 \<Longrightarrow> setTimeout_delay d = d"
  by (simp add: setTimeout_delay_def TIMEOUT_MAX_def)

lemma setTimeout_delay_out_of_range:
  "d < 1 \<or> 2147483647 < d \<Longrightarrow> setTimeout_delay d = 1"
  by (auto simp: setTimeout_delay_def TIMEOUT_MAX_def)

subsection \<open>Runs of a foreground call\<close>

lemma fg_run_Nil [simp]: "fg_run s [] = s"
  by (simp add: fg_run_def)

lemma fg_run_Cons [simp]: "fg_run s (e # es) = fg_run (fg_step s e) es"
  by (simp add: fg_run_def)

lemma fg_run_append: "fg_run s (es @ es') = fg_run (fg_run s es) es'"
  by (simp add: fg_run_def)

lemma fg_run_output:
  "list_all is_output es \<Longrightarrow>
   fg_run s es = s\<lparr>fg_stdout := fg_stdout s @ stdout_of (child_events es),
                    fg_stderr := fg_stderr s @ stderr_of (child_events es)\<rparr>"
proof (induction es arbitrary: s)
  case Nil
  then show ?case by simp
next
  case (Cons e es)
  then obtain c where e: "e = FromChild c" and c: "is_data c"
    by (cases e) auto
  from c show ?case
    using Cons by (cases c) (simp_all add: e)
qed

lemma resolved_step: "resolved s = Some v \<Longrightarrow> resolved (fg_step s e) = Some v"
  by (induction s e rule: fg_step.induct)
     (simp_all add: fg_on_close_def fg_on_error_def resolve_def clearTimeout_def
        on_timeout_def on_grace_timer_def Let_def)

lemma resolved_run: "resolved s = Some v \<Longrightarrow> resolved (fg_run s es) = Some v"
  by (induction es arbitrary: s) (simp_all add: resolved_step)

lemma fg_run_output_or_grace:
  "list_all output_or_grace es \<Longrightarrow>
   fg_run s es =
     s\<lparr>fg_stdout := fg_stdout s @ stdout_of (child_events es),
       fg_stderr := fg_stderr s @ stderr_of (child_events es),
       graceTimer := (if GraceTimerFires \<in> set es then None else graceTimer s),
       kills := kills s @ (if GraceTimerFires \<in> set es \<and> graceTimer s \<noteq> None
                           then [SIGKILL] else [])\<rparr>"
proof (induction es arbitrary: s)
  case Nil
  then show ?case by simp
next
  case (Cons e es)
  have rest: "list_all output_or_grace es"
    using Cons.prems by simp
  show ?case
  proof (cases e)
    case (FromChild c)
    then have "is_data c" using Cons.prems by simp
    then show ?thesis
      using Cons.IH [OF rest] FromChild by (cases c) simp_all
  next
    case TimeoutFires
    then show ?thesis using Cons.prems by simp
  next
    case GraceTimerFires
    then show ?thesis
      using Cons.IH [OF rest] by (auto simp: on_grace_timer_def)
  qed
qed

lemma sublist_timeout_note: "sublist ''timed out'' (xs @ timeout_note t)"
proof -
  have "xs @ timeout_note t =
        (xs @ newline # ''Process '') @ ''timed out'' @ ('' after '' @ show_int t @ ''ms'')"
    by (simp add: timeout_note_def)
  then show ?thesis
    unfolding sublist_def by blast
qed

lemma stdout_of_append: "stdout_of (xs @ ys) = stdout_of xs @ stdout_of ys"
  by (induction xs rule: stdout_of.induct) simp_all

lemma stderr_of_append: "stderr_of (xs @ ys) = stderr_of xs @ stderr_of ys"
  by (induction xs rule: stderr_of.induct) simp_all

lemma child_events_append: "child_events (xs @ ys) = child_events xs @ child_events ys"
  by (induction xs rule: child_events.induct) simp_all

lemma at_deadline:
  assumes o1: "list_all is_output es1"
  shows "fg_run (start_foreground t) (es1 @ [TimeoutFires]) =
     (start_foreground t)\<lparr>
        fg_stdout := stdout_of (child_events es1),
        fg_stderr := stderr_of (child_events es1),
        timedOut := True, timeoutId := None, graceTimer := Some 1000, kills := [SIGTERM]\<rparr>"
  by (simp add: fg_run_append fg_run_output [OF o1] start_foreground_def on_timeout_def)

lemma after_deadline:
  assumes o1: "list_all is_output es1" and o2: "list_all output_or_grace es2"
  shows "fg_run (start_foreground t) (es1 @ [TimeoutFires] @ es2) =
     (start_foreground t)\<lparr>
        fg_stdout := stdout_of (child_events (es1 @ es2)),
        fg_stderr := stderr_of (child_events (es1 @ es2)),
        timedOut := True, timeoutId := None,
        graceTimer := (if GraceTimerFires \<in> set es2 then None else Some 1000),
        kills := (if GraceTimerFires \<in> set es2 then [SIGTERM, SIGKILL] else [SIGTERM])\<rparr>"
proof -
  have "fg_run (start_foreground t) (es1 @ [TimeoutFires] @ es2)
        = fg_run (fg_run (start_foreground t) (es1 @ [TimeoutFires])) es2"
    using fg_run_append [of "start_foreground t" "es1 @ [TimeoutFires]" es2] by simp
  also have "\<dots> = fg_run ((start_foreground t)\<lparr>
        fg_stdout := stdout_of (child_events es1),
        fg_stderr := stderr_of (child_events es1),
        timedOut := True, timeoutId := None, graceTimer := Some 1000, kills := [SIGTERM]\<rparr>) es2"
    by (simp only: at_deadline [OF o1])
  finally show ?thesis
    by (simp add: fg_run_output_or_grace [OF o2] start_foreground_def
          stdout_of_append stderr_of_append child_events_append)
qed

lemma closed_after_deadline:
  assumes o1: "list_all is_output es1" and o2: "list_all output_or_grace es2"
  shows "fg_run (start_foreground t) (es1 @ [TimeoutFires] @ es2 @ [FromChild (Close code)]) =
     (start_foreground t)\<lparr>
        fg_stdout := stdout_of (child_events (es1 @ es2)),
        fg_stderr := stderr_of (child_events (es1 @ es2)) @ timeout_note t,
        timedOut := True, timeoutId := None,
        graceTimer := (if GraceTimerFires \<in> set es2 then None else Some 1000),
        kills := (if GraceTimerFires \<in> set es2 then [SIGTERM, SIGKILL] else [SIGTERM]),
        resolved := Some \<lparr>res_stdout = stdout_of (child_events (es1 @ es2)),
                          res_stderr = stderr_of (child_events (es1 @ es2)) @ timeout_note t,
                          res_exitCode = 124\<rparr>\<rparr>"
proof -
  have "fg_run (start_foreground t) (es1 @ [TimeoutFires] @ es2 @ [FromChild (Close code)])
        = fg_step (fg_run (start_foreground t) (es1 @ [TimeoutFires] @ es2)) (FromChild (Close code))"
    using fg_run_append [of "start_foreground t" "es1 @ [TimeoutFires] @ es2" "[FromChild (Close code)]"]
    by simp
  also have "\<dots> = fg_step ((start_foreground t)\<lparr>
        fg_stdout := stdout_of (child_events (es1 @ es2)),
        fg_stderr := stderr_of (child_events (es1 @ es2)),
        timedOut := True, timeoutId := None,
        graceTimer := (if GraceTimerFires \<in> set es2 then None else Some 1000),
        kills := (if GraceTimerFires \<in> set es2 then [SIGTERM, SIGKILL] else [SIGTERM])\<rparr>)
      (FromChild (Close code))"
    by (simp only: after_deadline [OF o1 o2])
  finally show ?thesis
    by (simp add: fg_on_close_def clearTimeout_def resolve_def start_foreground_def)
qed

lemma execute_Foreground:
  "execute s args random36 child now = Foreground fg \<Longrightarrow>
   fg = start_foreground (nullish (timeout args) DEFAULT_TIMEOUT)"
  by (simp add: execute_def split: if_splits prod.splits)

lemma no_timer_step:
  "timeoutId s = None \<Longrightarrow> graceTimer s = None \<Longrightarrow>
   timeoutId (fg_step s e) = None \<and> graceTimer (fg_step s e) = None \<and> kills (fg_step s e) = kills s"
  by (induction s e rule: fg_step.induct)
     (simp_all add: fg_on_close_def fg_on_error_def resolve_def clearTimeout_def Let_def)

lemma no_timer_run:
  "timeoutId s = None \<Longrightarrow> graceTimer s = None \<Longrightarrow>
   timeoutId (fg_run s es) = None \<and> graceTimer (fg_run s es) = None \<and> kills (fg_run s es) = kills s"
proof (induction es arbitrary: s)
  case Nil
  then show ?case by simp
next
  case (Cons e es)
  from no_timer_step [OF Cons.prems, of e] Cons.IH [of "fg_step s e"]
  show ?case by simp
qed

lemma closed_before_deadline:
  assumes o1: "list_all is_output es"
  shows "fg_run (start_foreground t) (es @ [FromChild (Close code)]) =
     (start_foreground t)\<lparr>
        fg_stdout := stdout_of (child_events es),
        fg_stderr := stderr_of (child_events es),
        timeoutId := None,
        resolved := Some \<lparr>res_stdout = stdout_of (child_events es),
                          res_stderr = stderr_of (child_events es),
                          res_exitCode = nullish code 1\<rparr>\<rparr>"
  by (simp add: fg_run_append fg_run_output [OF o1] start_foreground_def
        fg_on_close_def clearTimeout_def resolve_def)

text \<open>
  C2: in a foreground call whose child has neither closed nor failed when the deadline
  timer fires (only output events came before), the deadline callback sends SIGTERM and
  starts the grace timer with the fixed delay of 1000ms; when the grace timer fires before
  the child closes, SIGKILL is sent after SIGTERM; and when the child then closes, the call
  resolves with exitCode 124, the captured output, and the note "Process timed out after
  <timeout>ms" (which contains "timed out") appended to stderr.
\<close>

theorem C2_timeout_escalation:
  assumes "execute s args random36 child now = Foreground fg"
    and "list_all is_output es1" and "list_all output_or_grace es2"
  shows "kills (fg_run fg (es1 @ [TimeoutFires])) = [SIGTERM]
       \<and> graceTimer (fg_run fg (es1 @ [TimeoutFires])) = Some 1000
       \<and> resolved (fg_run fg (es1 @ [TimeoutFires] @ es2)) = None
       \<and> kills (fg_run fg (es1 @ [TimeoutFires] @ es2 @ [FromChild (Close code)]))
           = (if GraceTimerFires \<in> set es2 then [SIGTERM, SIGKILL] else [SIGTERM])
       \<and> resolved (fg_run fg (es1 @ [TimeoutFires] @ es2 @ [FromChild (Close code)]))
           = Some \<lparr>res_stdout = stdout_of (child_events (es1 @ es2)),
                   res_stderr = stderr_of (child_events (es1 @ es2))
                                @ timeout_note (nullish (timeout args) DEFAULT_TIMEOUT),
                   res_exitCode = 124\<rparr>
       \<and> sublist ''timed out''
            (stderr_of (child_events (es1 @ es2))
             @ timeout_note (nullish (timeout args) DEFAULT_TIMEOUT))"
proof -
  have fg: "fg = start_foreground (nullish (timeout args) DEFAULT_TIMEOUT)"
    using assms(1) by (rule execute_Foreground)
  show ?thesis
    unfolding fg
    by (simp only: at_deadline [OF assms(2)] after_deadline [OF assms(2,3)]
          closed_after_deadline [OF assms(2,3)] sublist_timeout_note)
       (simp add: start_foreground_def)
qed

theorem C2_timeout_escalation_witness:
  "execute init_server \<lparr>command = ''sleep 10'', timeout = Some 100, background = None\<rparr>
      ''0.4fzyo82mvyr'' \<lparr>child_pid = Some 4242\<rparr> 0 = Foreground (start_foreground 100)
   \<and> list_all is_output [FromChild (StdoutData ''a'')]
   \<and> list_all output_or_grace [GraceTimerFires]
   \<and> kills (fg_run (start_foreground 100)
        [FromChild (StdoutData ''a''), TimeoutFires, GraceTimerFires, FromChild (Close None)])
       = [SIGTERM, SIGKILL]
   \<and> resolved (fg_run (start_foreground 100)
        [FromChild (StdoutData ''a''), TimeoutFires, GraceTimerFires, FromChild (Close None)])
       = Some \<lparr>res_stdout = ''a'',
               res_stderr = CHR 0x0A # ''Process timed out after 100ms'',
               res_exitCode = 124\<rparr>"
proof -
  have h1: "execute init_server \<lparr>command = ''sleep 10'', timeout = Some 100, background = None\<rparr>
      ''0.4fzyo82mvyr'' \<lparr>child_pid = Some 4242\<rparr> 0 = Foreground (start_foreground 100)"
    by (simp add: execute_def)
  have h2: "list_all is_output [FromChild (StdoutData ''a'')]" by simp
  have h3: "list_all output_or_grace [GraceTimerFires]" by simp
  have tn: "timeout_note 100 = CHR 0x0A # ''Process timed out after 100ms''"
    by (simp add: timeout_note_def show_int_def show_nat.simps digit_char_def newline_def)
  show ?thesis
    using h1 h2 h3 C2_timeout_escalation [OF h1 h2 h3, of None]
    by (simp add: tn start_foreground_def on_timeout_def on_grace_timer_def fg_on_close_def
          clearTimeout_def resolve_def toString_def)
qed




text \<open>
  C5 as stated fails for a child that closes during the grace period. With a timeout of
  50ms, a child that closes with exit code 0 after the deadline callback has run is
  reported with exitCode 124 and the timeout note, not with its own exit code 0; the grace
  timer is still pending after the call has resolved.
\<close>

theorem C5_counterexample:
  "execute init_server \<lparr>command = ''sleep 0.06'', timeout = Some 50, background = None\<rparr>
      ''0.4fzyo82mvyr'' \<lparr>child_pid = Some 4242\<rparr> 0 = Foreground (start_foreground 50)
   \<and> resolved (fg_run (start_foreground 50) [TimeoutFires, FromChild (Close (Some 0))])
       = Some \<lparr>res_stdout = [], res_stderr = CHR 0x0A # ''Process timed out after 50ms'',
               res_exitCode = 124\<rparr>
   \<and> graceTimer (fg_run (start_foreground 50) [TimeoutFires, FromChild (Close (Some 0))])
       = Some 1000"
  by (simp add: execute_def start_foreground_def on_timeout_def fg_on_close_def
        clearTimeout_def resolve_def timeout_note_def show_int_def show_nat.simps
        digit_char_def newline_def)

text \<open>
  C5, amended: in a foreground call whose child closes before the deadline timer fires,
  the close callback clears the deadline timer, so no signal is sent then or at any later
  event, and the call resolves with the exit code of the close event unmodified (1 when
  that code is null). A child that closes after the deadline callback has run, also within
  the grace period, is reported as timed out: exitCode 124 and the timeout note, whatever
  its own exit code.
\<close>

theorem C5_exit_before_deadline:
  assumes "execute s args random36 child now = Foreground fg"
    and "list_all is_output es1" and "list_all output_or_grace es2"
  shows "timeoutId (fg_run fg (es1 @ [FromChild (Close code)] @ later)) = None
       \<and> graceTimer (fg_run fg (es1 @ [FromChild (Close code)] @ later)) = None
       \<and> kills (fg_run fg (es1 @ [FromChild (Close code)] @ later)) = []
       \<and> resolved (fg_run fg (es1 @ [FromChild (Close code)] @ later))
           = Some \<lparr>res_stdout = stdout_of (child_events es1),
                   res_stderr = stderr_of (child_events es1),
                   res_exitCode = nullish code 1\<rparr>
       \<and> resolved (fg_run fg (es1 @ [TimeoutFires] @ es2 @ [FromChild (Close code)]))
           = Some \<lparr>res_stdout = stdout_of (child_events (es1 @ es2)),
                   res_stderr = stderr_of (child_events (es1 @ es2))
                                @ timeout_note (nullish (timeout args) DEFAULT_TIMEOUT),
                   res_exitCode = 124\<rparr>"
proof -
  define t where "t = nullish (timeout args) DEFAULT_TIMEOUT"
  have fg: "fg = start_foreground t"
    using assms(1) unfolding t_def by (rule execute_Foreground)
  define c where "c = fg_run fg (es1 @ [FromChild (Close code)])"
  have c: "c = (start_foreground t)\<lparr>
        fg_stdout := stdout_of (child_events es1),
        fg_stderr := stderr_of (child_events es1),
        timeoutId := None,
        resolved := Some \<lparr>res_stdout = stdout_of (child_events es1),
                          res_stderr = stderr_of (child_events es1),
                          res_exitCode = nullish code 1\<rparr>\<rparr>"
    unfolding c_def fg by (rule closed_before_deadline [OF assms(2)])
  have run: "fg_run fg (es1 @ [FromChild (Close code)] @ later) = fg_run c later"
    unfolding c_def using fg_run_append [of fg "es1 @ [FromChild (Close code)]" later] by simp
  have t0: "timeoutId c = None" and g0: "graceTimer c = None" and k0: "kills c = []"
    and r0: "resolved c = Some \<lparr>res_stdout = stdout_of (child_events es1),
                          res_stderr = stderr_of (child_events es1),
                          res_exitCode = nullish code 1\<rparr>"
    by (simp_all add: c start_foreground_def)
  have late: "resolved (fg_run fg (es1 @ [TimeoutFires] @ es2 @ [FromChild (Close code)]))
           = Some \<lparr>res_stdout = stdout_of (child_events (es1 @ es2)),
                   res_stderr = stderr_of (child_events (es1 @ es2)) @ timeout_note t,
                   res_exitCode = 124\<rparr>"
    unfolding fg by (simp only: closed_after_deadline [OF assms(2,3)]) simp
  show ?thesis
    unfolding run t_def [symmetric]
    using no_timer_run [OF t0 g0, of later] resolved_run [OF r0, of later] k0 late
    by simp
qed

theorem C5_exit_before_deadline_witness:
  "execute init_server \<lparr>command = ''exit 3'', timeout = Some 50, background = None\<rparr>
      ''0.4fzyo82mvyr'' \<lparr>child_pid = Some 4242\<rparr> 0 = Foreground (start_foreground 50)
   \<and> list_all is_output [FromChild (StderrData ''x'')]
   \<and> list_all output_or_grace [GraceTimerFires]
   \<and> kills (fg_run (start_foreground 50)
        [FromChild (StderrData ''x''), FromChild (Close (Some 3)), TimeoutFires, GraceTimerFires]) = []
   \<and> resolved (fg_run (start_foreground 50)
        [FromChild (StderrData ''x''), FromChild (Close (Some 3)), TimeoutFires, GraceTimerFires])
       = Some \<lparr>res_stdout = [], res_stderr = ''x'', res_exitCode = 3\<rparr>
   \<and> resolved (fg_run (start_foreground 50)
        [FromChild (StderrData ''x''), TimeoutFires, GraceTimerFires, FromChild (Close (Some 3))])
       = Some \<lparr>res_stdout = [], res_stderr = ''x'' @ CHR 0x0A # ''Process timed out after 50ms'',
               res_exitCode = 124\<rparr>"
proof -
  have h1: "execute init_server \<lparr>command = ''exit 3'', timeout = Some 50, background = None\<rparr>
      ''0.4fzyo82mvyr'' \<lparr>child_pid = Some 4242\<rparr> 0 = Foreground (start_foreground 50)"
    by (simp add: execute_def)
  have h2: "list_all is_output [FromChild (StderrData ''x'')]" by simp
  have h3: "list_all output_or_grace [GraceTimerFires]" by simp
  have tn: "timeout_note 50 = CHR 0x0A # ''Process timed out after 50ms''"
    by (simp add: timeout_note_def show_int_def show_nat.simps digit_char_def newline_def)
  show ?thesis
    using h1 h2 h3
      C5_exit_before_deadline [OF h1 h2 h3, of "Some 3" "[TimeoutFires, GraceTimerFires]"]
    by (simp add: tn start_foreground_def on_timeout_def on_grace_timer_def fg_on_close_def
          clearTimeout_def resolve_def toString_def)
qed

text \<open>
  C9 as stated fails for a timeout outside the range of a timer delay: with a timeout of
  3000000000 the deadline timer is started with a delay of 1ms, not with the caller's
  value.
\<close>

theorem C9_counterexample:
  "execute init_server \<lparr>command = ''sleep 10'', timeout = Some 3000000000, background = None\<rparr>
      ''0.4fzyo82mvyr'' \<lparr>child_pid = Some 4242\<rparr> 0 = Foreground (start_foreground 3000000000)
   \<and> timeoutId (start_foreground 3000000000) = Some 1"
  by (simp add: execute_def start_foreground_def setTimeout_delay_def TIMEOUT_MAX_def)

text \<open>
  C9, amended: the deadline timer of a foreground call is started with 5000ms when the
  arguments carry no timeout; when they carry a whole number of milliseconds between 1
  and 2147483647 it is started with that value, and for a whole number outside that range
  with 1ms. The timeout that the timeout note prints is the caller's value in every case.
\<close>

theorem C9_deadline_default:
  assumes "execute s args random36 child now = Foreground fg"
  shows "DEFAULT_TIMEOUT = 5000
       \<and> (timeout args = None \<longrightarrow> timeoutId fg = Some 5000 \<and> timeout_ms fg = 5000)
       \<and> (\<forall>t. timeout args = Some t \<longrightarrow>
             timeout_ms fg = t
             \<and> timeoutId fg = Some (if 1 \<le> t \<and> t \<le> 2147483647 then t else 1))
       \<and> graceTimer fg = None \<and> kills fg = []"
  using execute_Foreground [OF assms]
  by (auto simp: start_foreground_def DEFAULT_TIMEOUT_def setTimeout_delay_def TIMEOUT_MAX_def)

theorem C9_deadline_default_witness:
  "execute init_server \<lparr>command = ''ls'', timeout = None, background = Some False\<rparr>
      ''0.4fzyo82mvyr'' \<lparr>child_pid = Some 4242\<rparr> 0 = Foreground (start_foreground 5000)
   \<and> timeoutId (start_foreground 5000) = Some 5000
   \<and> execute init_server \<lparr>command = ''ls'', timeout = Some 100, background = None\<rparr>
      ''0.4fzyo82mvyr'' \<lparr>child_pid = Some 4242\<rparr> 0 = Foreground (start_foreground 100)
   \<and> timeoutId (start_foreground 100) = Some 100
   \<and> execute init_server \<lparr>command = ''ls'', timeout = Some 0, background = None\<rparr>
      ''0.4fzyo82mvyr'' \<lparr>child_pid = Some 4242\<rparr> 0 = Foreground (start_foreground 0)
   \<and> timeoutId (start_foreground 0) = Some 1"
proof -
  have h1: "execute init_server \<lparr>command = ''ls'', timeout = None, background = Some False\<rparr>
      ''0.4fzyo82mvyr'' \<lparr>child_pid = Some 4242\<rparr> 0 = Foreground (start_foreground 5000)"
    by (simp add: execute_def DEFAULT_TIMEOUT_def)
  have h2: "execute init_server \<lparr>command = ''ls'', timeout = Some 100, background = None\<rparr>
      ''0.4fzyo82mvyr'' \<lparr>child_pid = Some 4242\<rparr> 0 = Foreground (start_foreground 100)"
    by (simp add: execute_def)
  have h3: "execute init_server \<lparr>command = ''ls'', timeout = Some 0, background = None\<rparr>
      ''0.4fzyo82mvyr'' \<lparr>child_pid = Some 4242\<rparr> 0 = Foreground (start_foreground 0)"
    by (simp add: execute_def)
  show ?thesis
    using h1 h2 h3 C9_deadline_default [OF h1] C9_deadline_default [OF h2]
      C9_deadline_default [OF h3]
    by simp
qed

subsection \<open>Background jobs\<close>

lemma run_actions_Nil [simp]: "run_actions s [] = s"
  by (simp add: run_actions_def)

lemma run_actions_Cons [simp]: "run_actions s (a # acts) = run_actions (step s a) acts"
  by (simp add: run_actions_def)

lemma execute_background_eq:
  "execute_background s random36 child now =
     (\<lparr>jobId = generateJobId random36, pid = nullish (child_pid child) 0\<rparr>,
      s\<lparr>heap := (heap s)(next_ref s := new_job child now), next_ref := Suc (next_ref s),
        backgroundJobs := (backgroundJobs s)(generateJobId random36 \<mapsto> next_ref s)\<rparr>)"
  by (simp add: execute_background_def Let_def)

lemma job_events_Nil [simp]: "job_events j [] = j"
  by (simp add: job_events_def)

lemma job_events_Cons [simp]: "job_events j (e # es) = job_events (job_event j e) es"
  by (simp add: job_events_def)

lemma job_events_append: "job_events j (xs @ ys) = job_events (job_events j xs) ys"
  by (simp add: job_events_def)

lemma job_events_stdout: "stdout (job_events j es) = stdout j @ stdout_of es"
proof (induction es arbitrary: j)
  case Nil
  then show ?case by simp
next
  case (Cons e es)
  show ?case
    by (cases e)
       (simp_all add: Cons.IH on_stdout_data_def on_stderr_data_def on_close_def on_error_def)
qed

lemma job_events_stderr: "stderr (job_events j es) = stderr j @ stderr_log es"
proof (induction es arbitrary: j)
  case Nil
  then show ?case by simp
next
  case (Cons e es)
  show ?case
    by (cases e)
       (simp_all add: Cons.IH on_stdout_data_def on_stderr_data_def on_close_def on_error_def)
qed

lemma step_heap_old:
  "r < next_ref s \<Longrightarrow>
   heap (step s a) r = job_events (heap s r) (events_for r [a]) \<and> r < next_ref (step s a)"
  by (cases a) (auto simp: execute_background_eq get_job_status_def Let_def split: option.splits)

lemma events_for_Cons: "events_for r (a # acts) = events_for r [a] @ events_for r acts"
  by (cases a) simp_all

lemma job_after_actions:
  "r < next_ref s \<Longrightarrow> heap (run_actions s acts) r = job_events (heap s r) (events_for r acts)"
proof (induction acts arbitrary: s)
  case Nil
  then show ?case by simp
next
  case (Cons a acts)
  from step_heap_old [OF Cons.prems, of a]
  have h: "heap (step s a) r = job_events (heap s r) (events_for r [a])"
    and n: "r < next_ref (step s a)"
    by simp_all
  show ?case
    using Cons.IH [OF n] h events_for_Cons [of r a acts]
    by (simp add: job_events_append)
qed

lemma get_job_status_absent:
  "backgroundJobs s jid = None \<Longrightarrow> get_job_status s jid = (Inl (job_not_found jid), s)"
  by (simp add: get_job_status_def)

lemma get_job_status_table:
  "backgroundJobs (snd (get_job_status s jid)) jid' = None \<longleftrightarrow>
   backgroundJobs s jid' = None \<or>
   (jid' = jid \<and> (\<exists>r. backgroundJobs s jid = Some r \<and> exitCode (heap s r) \<noteq> None))"
  by (auto simp: get_job_status_def Let_def split: option.splits)

lemma step_absent:
  assumes "backgroundJobs s jid = None" and "jid \<notin> set (issued_ids [a])"
  shows "backgroundJobs (step s a) jid = None"
proof (cases a)
  case (ExecuteBackground random36 child now)
  then show ?thesis
    using assms by (simp add: execute_background_eq)
next
  case (ChildEvent r e)
  then show ?thesis using assms by simp
next
  case (GetJobStatus j)
  then show ?thesis
    using assms by (simp add: get_job_status_table)
qed

lemma issued_ids_Cons: "set (issued_ids (a # acts)) = set (issued_ids [a]) \<union> set (issued_ids acts)"
  by (cases a) simp_all

lemma run_absent:
  "backgroundJobs s jid = None \<Longrightarrow> jid \<notin> set (issued_ids acts) \<Longrightarrow>
   backgroundJobs (run_actions s acts) jid = None"
proof (induction acts arbitrary: s)
  case Nil
  then show ?case by simp
next
  case (Cons a acts)
  from Cons.prems(2) have a: "jid \<notin> set (issued_ids [a])" and rest: "jid \<notin> set (issued_ids acts)"
    using issued_ids_Cons [of a acts] by auto
  show ?case
    using Cons.IH [OF step_absent [OF Cons.prems(1) a] rest] by simp
qed

text \<open>
  C1 as stated fails when a later background execute draws an id again: the first status
  read of a completed job returns its result and removes it, but after a second background
  execute whose random number gives the same id, a read with that id does not fail; it
  returns the new job, still running.
\<close>

theorem C1_counterexample:
  "fst (get_job_status
     (run_actions init_server
        [ExecuteBackground ''0.4fzyo82mvyr'' \<lparr>child_pid = Some 4242\<rparr> 0,
         ChildEvent 0 (Close (Some 0))])
     ''4fzyo82m'')
     = Inr \<lparr>st_stdout = [], st_stderr = [], st_exitCode = Some 0, st_running = False\<rparr>
   \<and> fst (get_job_status
     (run_actions init_server
        [ExecuteBackground ''0.4fzyo82mvyr'' \<lparr>child_pid = Some 4242\<rparr> 0,
         ChildEvent 0 (Close (Some 0)),
         GetJobStatus ''4fzyo82m'',
         ExecuteBackground ''0.4fzyo82mvyr'' \<lparr>child_pid = Some 4243\<rparr> 1])
     ''4fzyo82m'')
     = Inr \<lparr>st_stdout = [], st_stderr = [], st_exitCode = None, st_running = True\<rparr>"
  by (simp add: init_server_def execute_background_eq generateJobId_def substring_def
        get_job_status_def on_close_def new_job_def)

text \<open>
  C1, amended: when the table holds a job under an id and the job's exit code is set, the
  \<^verbatim>\<open>get_job_status\<close> call with that id returns the whole stdout and stderr of the job,
  running false and that exit code, and the state it leaves is the same state with the
  id removed from the table. Whatever happens afterwards (events of any child, status
  calls, background executes), as long as no background execute draws the same id again,
  a \<^verbatim>\<open>get_job_status\<close> call with that id fails with "Job not found: <id>"; and so does a
  call with an id that no background execute since the start of the server has issued.
  The stdout and stderr returned are the full accumulation: the job object holds what the
  callbacks made of every event delivered to it, its stdout being the text of all stdout
  chunks and its stderr the text of all stderr chunks and error notes, in arrival order.
\<close>

theorem C1_completed_job_read_once:
  assumes "backgroundJobs s jid = Some r" and "exitCode (heap s r) = Some c"
  shows "fst (get_job_status s jid)
           = Inr \<lparr>st_stdout = stdout (heap s r), st_stderr = stderr (heap s r),
                  st_exitCode = Some c, st_running = False\<rparr>
       \<and> snd (get_job_status s jid) = s\<lparr>backgroundJobs := (backgroundJobs s)(jid := None)\<rparr>
       \<and> (jid \<notin> set (issued_ids acts) \<longrightarrow>
            fst (get_job_status (run_actions (snd (get_job_status s jid)) acts) jid)
              = Inl (job_not_found jid))
       \<and> (unknown \<notin> set (issued_ids acts0) \<longrightarrow>
            fst (get_job_status (run_actions init_server acts0) unknown)
              = Inl (job_not_found unknown))
       \<and> (r < next_ref s0 \<longrightarrow> s = run_actions s0 acts1 \<longrightarrow>
            heap s r = job_events (heap s0 r) (events_for r acts1)
            \<and> stdout (heap s r) = stdout (heap s0 r) @ stdout_of (events_for r acts1)
            \<and> stderr (heap s r) = stderr (heap s0 r) @ stderr_log (events_for r acts1))"
proof -
  have first: "get_job_status s jid =
      (Inr \<lparr>st_stdout = stdout (heap s r), st_stderr = stderr (heap s r),
             st_exitCode = Some c, st_running = False\<rparr>,
       s\<lparr>backgroundJobs := (backgroundJobs s)(jid := None)\<rparr>)"
    using assms by (simp add: get_job_status_def Let_def)
  have gone: "backgroundJobs (snd (get_job_status s jid)) jid = None"
    by (simp add: first)
  have again: "fst (get_job_status (run_actions (snd (get_job_status s jid)) acts) jid)
              = Inl (job_not_found jid)" if "jid \<notin> set (issued_ids acts)"
    using get_job_status_absent [OF run_absent [OF gone that]] by simp
  have init: "backgroundJobs init_server unknown = None"
    by (simp add: init_server_def)
  have never: "fst (get_job_status (run_actions init_server acts0) unknown)
              = Inl (job_not_found unknown)" if "unknown \<notin> set (issued_ids acts0)"
    using get_job_status_absent [OF run_absent [OF init that]] by simp
  have acc: "heap s r = job_events (heap s0 r) (events_for r acts1)
            \<and> stdout (heap s r) = stdout (heap s0 r) @ stdout_of (events_for r acts1)
            \<and> stderr (heap s r) = stderr (heap s0 r) @ stderr_log (events_for r acts1)"
    if "r < next_ref s0" and "s = run_actions s0 acts1"
    using job_after_actions [OF that(1), of acts1] that(2)
    by (simp add: job_events_stdout job_events_stderr)
  show ?thesis
    using first again never acc by (simp add: job_events_stdout job_events_stderr)
qed

theorem C1_completed_job_read_once_witness:
  "backgroundJobs
     (run_actions init_server
        [ExecuteBackground ''0.4fzyo82mvyr'' \<lparr>child_pid = Some 4242\<rparr> 0,
         ChildEvent 0 (StdoutData ''done''), ChildEvent 0 (StderrData ''warn''),
           ChildEvent 0 (Close (Some 0))])
     ''4fzyo82m'' = Some 0
   \<and> exitCode (heap
        (run_actions init_server
          [ExecuteBackground ''0.4fzyo82mvyr'' \<lparr>child_pid = Some 4242\<rparr> 0,
           ChildEvent 0 (StdoutData ''done''), ChildEvent 0 (StderrData ''warn''),
           ChildEvent 0 (Close (Some 0))]) 0) = Some 0
   \<and> fst (get_job_status
        (run_actions init_server
          [ExecuteBackground ''0.4fzyo82mvyr'' \<lparr>child_pid = Some 4242\<rparr> 0,
           ChildEvent 0 (StdoutData ''done''), ChildEvent 0 (StderrData ''warn''),
           ChildEvent 0 (Close (Some 0))])
        ''4fzyo82m'')
       = Inr \<lparr>st_stdout = ''done'', st_stderr = ''warn'', st_exitCode = Some 0, st_running = False\<rparr>
   \<and> ''4fzyo82m'' \<notin> set (issued_ids [ChildEvent 0 (Close (Some 0)), GetJobStatus ''4fzyo82m''])
   \<and> fst (get_job_status
        (run_actions
          (snd (get_job_status
            (run_actions init_server
              [ExecuteBackground ''0.4fzyo82mvyr'' \<lparr>child_pid = Some 4242\<rparr> 0,
               ChildEvent 0 (StdoutData ''done''), ChildEvent 0 (StderrData ''warn''),
           ChildEvent 0 (Close (Some 0))])
            ''4fzyo82m''))
          [ChildEvent 0 (Close (Some 0)), GetJobStatus ''4fzyo82m''])
        ''4fzyo82m'')
       = Inl (Error ''Job not found: 4fzyo82m'')
   \<and> ''nonexistent'' \<notin> set (issued_ids [ExecuteBackground ''0.4fzyo82mvyr'' \<lparr>child_pid = Some 4242\<rparr> 0])
   \<and> fst (get_job_status
        (run_actions init_server [ExecuteBackground ''0.4fzyo82mvyr'' \<lparr>child_pid = Some 4242\<rparr> 0])
        ''nonexistent'')
       = Inl (Error ''Job not found: nonexistent'')
   \<and> 0 < next_ref
        (run_actions init_server [ExecuteBackground ''0.4fzyo82mvyr'' \<lparr>child_pid = Some 4242\<rparr> 0])
   \<and> run_actions init_server
        [ExecuteBackground ''0.4fzyo82mvyr'' \<lparr>child_pid = Some 4242\<rparr> 0,
         ChildEvent 0 (StdoutData ''done''), ChildEvent 0 (StderrData ''warn''),
           ChildEvent 0 (Close (Some 0))]
       = run_actions
          (run_actions init_server [ExecuteBackground ''0.4fzyo82mvyr'' \<lparr>child_pid = Some 4242\<rparr> 0])
          [ChildEvent 0 (StdoutData ''done''), ChildEvent 0 (StderrData ''warn''),
           ChildEvent 0 (Close (Some 0))]
   \<and> heap
        (run_actions init_server
          [ExecuteBackground ''0.4fzyo82mvyr'' \<lparr>child_pid = Some 4242\<rparr> 0,
           ChildEvent 0 (StdoutData ''done''), ChildEvent 0 (StderrData ''warn''),
           ChildEvent 0 (Close (Some 0))]) 0
       = job_events
          (heap (run_actions init_server
                  [ExecuteBackground ''0.4fzyo82mvyr'' \<lparr>child_pid = Some 4242\<rparr> 0]) 0)
          (events_for 0 [ChildEvent 0 (StdoutData ''done''), ChildEvent 0 (StderrData ''warn''),
           ChildEvent 0 (Close (Some 0))])"
proof -
  let ?b = "run_actions init_server
        [ExecuteBackground ''0.4fzyo82mvyr'' \<lparr>child_pid = Some 4242\<rparr> 0]"
  let ?s = "run_actions init_server
        [ExecuteBackground ''0.4fzyo82mvyr'' \<lparr>child_pid = Some 4242\<rparr> 0,
         ChildEvent 0 (StdoutData ''done''), ChildEvent 0 (StderrData ''warn''),
           ChildEvent 0 (Close (Some 0))]"
  have id: "generateJobId ''0.4fzyo82mvyr'' = ''4fzyo82m''"
    by (simp add: generateJobId_def substring_def)
  have h1: "backgroundJobs ?s ''4fzyo82m'' = Some 0"
    by (simp add: init_server_def execute_background_eq id)
  have h2: "exitCode (heap ?s 0) = Some 0"
    by (simp add: init_server_def execute_background_eq id on_stdout_data_def
          on_stderr_data_def on_close_def)
  have out: "stdout (heap ?s 0) = ''done''" and err: "stderr (heap ?s 0) = ''warn''"
    by (simp_all add: init_server_def execute_background_eq id on_stdout_data_def
          on_stderr_data_def on_close_def new_job_def toString_def)
  have h3: "''4fzyo82m'' \<notin> set (issued_ids [ChildEvent 0 (Close (Some 0)), GetJobStatus ''4fzyo82m''])"
    by simp
  have h4: "''nonexistent'' \<notin> set (issued_ids [ExecuteBackground ''0.4fzyo82mvyr'' \<lparr>child_pid = Some 4242\<rparr> 0])"
    by (simp add: id)
  have nf1: "job_not_found ''4fzyo82m'' = Error ''Job not found: 4fzyo82m''"
    and nf2: "job_not_found ''nonexistent'' = Error ''Job not found: nonexistent''"
    by (simp_all add: job_not_found_def)
  have h5: "0 < next_ref ?b"
    by (simp add: init_server_def execute_background_eq)
  have h6: "?s = run_actions ?b [ChildEvent 0 (StdoutData ''done''), ChildEvent 0 (StderrData ''warn''),
           ChildEvent 0 (Close (Some 0))]"
    by (simp only: run_actions_Cons run_actions_Nil)
  note inst = C1_completed_job_read_once [OF h1 h2,
        of "[ChildEvent 0 (Close (Some 0)), GetJobStatus ''4fzyo82m'']" "''nonexistent''"
           "[ExecuteBackground ''0.4fzyo82mvyr'' \<lparr>child_pid = Some 4242\<rparr> 0]"
           ?b "[ChildEvent 0 (StdoutData ''done''), ChildEvent 0 (StderrData ''warn''),
           ChildEvent 0 (Close (Some 0))]"]
  from inst have "fst (get_job_status ?s ''4fzyo82m'')
       = Inr \<lparr>st_stdout = stdout (heap ?s 0), st_stderr = stderr (heap ?s 0),
               st_exitCode = Some 0, st_running = False\<rparr>"
    by (rule conjunct1)
  then have a: "fst (get_job_status ?s ''4fzyo82m'')
       = Inr \<lparr>st_stdout = ''done'', st_stderr = ''warn'', st_exitCode = Some 0, st_running = False\<rparr>"
    by (simp only: out err)
  from inst h3 have b: "fst (get_job_status
        (run_actions (snd (get_job_status ?s ''4fzyo82m''))
          [ChildEvent 0 (Close (Some 0)), GetJobStatus ''4fzyo82m''])
        ''4fzyo82m'') = Inl (Error ''Job not found: 4fzyo82m'')"
    unfolding nf1 by blast
  from inst h4 have c: "fst (get_job_status
        (run_actions init_server [ExecuteBackground ''0.4fzyo82mvyr'' \<lparr>child_pid = Some 4242\<rparr> 0])
        ''nonexistent'') = Inl (Error ''Job not found: nonexistent'')"
    unfolding nf2 by blast
  from inst h5 h6 have d: "heap ?s 0
       = job_events (heap ?b 0)
          (events_for 0 [ChildEvent 0 (StdoutData ''done''), ChildEvent 0 (StderrData ''warn''),
           ChildEvent 0 (Close (Some 0))])"
    by blast
  show ?thesis
    using h1 h2 h3 h4 h5 h6 a b c d by blast
qed

lemma poll_running:
  assumes "backgroundJobs s jid = Some r" and "exitCode (heap s r) = None"
  shows "get_job_status s jid =
      (Inr \<lparr>st_stdout = stdout (heap s r), st_stderr = stderr (heap s r),
             st_exitCode = None, st_running = True\<rparr>, s)"
  using assms by (simp add: get_job_status_def Let_def)

text \<open>
  C6: when the table holds a job under an id and the job's exit code is absent, any number
  \<open>n\<close> of \<^verbatim>\<open>get_job_status\<close> calls with that id leave the server state as it was (the
  job stays in the table under the same id), and the next call again returns running true
  with the exit code absent.
\<close>

theorem C6_running_job_poll_idempotent:
  assumes "backgroundJobs s jid = Some r" and "exitCode (heap s r) = None"
  shows "run_actions s (replicate n (GetJobStatus jid)) = s
       \<and> get_job_status (run_actions s (replicate n (GetJobStatus jid))) jid
           = (Inr \<lparr>st_stdout = stdout (heap s r), st_stderr = stderr (heap s r),
                   st_exitCode = None, st_running = True\<rparr>, s)"
proof -
  have same: "run_actions s (replicate n (GetJobStatus jid)) = s"
    by (induction n) (simp_all add: poll_running [OF assms])
  show ?thesis
    by (simp add: same poll_running [OF assms])
qed

theorem C6_running_job_poll_idempotent_witness:
  "backgroundJobs
     (run_actions init_server
        [ExecuteBackground ''0.4fzyo82mvyr'' \<lparr>child_pid = Some 4242\<rparr> 0,
         ChildEvent 0 (StdoutData ''tick'')])
     ''4fzyo82m'' = Some 0
   \<and> exitCode (heap
        (run_actions init_server
          [ExecuteBackground ''0.4fzyo82mvyr'' \<lparr>child_pid = Some 4242\<rparr> 0,
           ChildEvent 0 (StdoutData ''tick'')]) 0) = None
   \<and> fst (get_job_status
        (run_actions
          (run_actions init_server
            [ExecuteBackground ''0.4fzyo82mvyr'' \<lparr>child_pid = Some 4242\<rparr> 0,
             ChildEvent 0 (StdoutData ''tick'')])
          (replicate 3 (GetJobStatus ''4fzyo82m'')))
        ''4fzyo82m'')
       = Inr \<lparr>st_stdout = ''tick'', st_stderr = [], st_exitCode = None, st_running = True\<rparr>"
proof -
  let ?s = "run_actions init_server
        [ExecuteBackground ''0.4fzyo82mvyr'' \<lparr>child_pid = Some 4242\<rparr> 0,
         ChildEvent 0 (StdoutData ''tick'')]"
  have id: "generateJobId ''0.4fzyo82mvyr'' = ''4fzyo82m''"
    by (simp add: generateJobId_def substring_def)
  have h1: "backgroundJobs ?s ''4fzyo82m'' = Some 0"
    by (simp add: init_server_def execute_background_eq id)
  have h2: "exitCode (heap ?s 0) = None"
    by (simp add: init_server_def execute_background_eq id on_stdout_data_def new_job_def)
  have out: "stdout (heap ?s 0) = ''tick''" and err: "stderr (heap ?s 0) = []"
    by (simp_all add: init_server_def execute_background_eq id on_stdout_data_def new_job_def
          toString_def)
  have "get_job_status (run_actions ?s (replicate 3 (GetJobStatus ''4fzyo82m''))) ''4fzyo82m''
          = (Inr \<lparr>st_stdout = stdout (heap ?s 0), st_stderr = stderr (heap ?s 0),
                   st_exitCode = None, st_running = True\<rparr>, ?s)"
    using C6_running_job_poll_idempotent [OF h1 h2, of 3] by (rule conjunct2)
  then have r: "fst (get_job_status (run_actions ?s (replicate 3 (GetJobStatus ''4fzyo82m''))) ''4fzyo82m'')
          = Inr \<lparr>st_stdout = ''tick'', st_stderr = [], st_exitCode = None, st_running = True\<rparr>"
    by (simp only: out err fst_conv)
  show ?thesis
    using h1 h2 r by blast
qed

lemma generateJobId_eq: "generateJobId random36 = take 8 (drop 2 random36)"
  by (simp add: generateJobId_def substring_def Let_def min_def max_def)

text \<open>
  C7 as stated fails when the process could not be spawned: the child then has no pid, and
  the handler returns \<^verbatim>\<open>child.pid ?? 0\<close>, that is pid 0, which is not positive.
\<close>

theorem C7_counterexample:
  "execute init_server \<lparr>command = ''echo bg'', timeout = None, background = Some True\<rparr>
      ''0.4fzyo82mvyr'' \<lparr>child_pid = None\<rparr> 0
   = Background \<lparr>jobId = ''4fzyo82m'', pid = 0\<rparr>
       (snd (execute_background init_server ''0.4fzyo82mvyr'' \<lparr>child_pid = None\<rparr> 0))"
  by (simp add: execute_def execute_background_eq generateJobId_eq)

text \<open>
  C7, amended: an \<^verbatim>\<open>execute\<close> call with background true returns at once, from the
  arguments, the random number and the spawned child alone; the job it registers under
  the new id still has empty stdout and stderr and no exit code. The result is
  \<^verbatim>\<open>{jobId, pid}\<close> where jobId is made of the characters 2 to 9 of the random number's
  base-36 rendering, non-empty whenever that rendering is longer than two characters, and
  pid is the pid of the child when \<^verbatim>\<open>spawn\<close> assigned one and 0 when it did not.
\<close>

theorem C7_background_execute_result:
  assumes "background args = Some True"
  shows "execute s args random36 child now =
           Background
             \<lparr>jobId = take 8 (drop 2 random36),
              pid = (case child_pid child of None \<Rightarrow> 0 | Some p \<Rightarrow> p)\<rparr>
             (s\<lparr>heap := (heap s)(next_ref s :=
                    \<lparr>process = child, stdout = [], stderr = [], exitCode = None,
                     startedAt = now\<rparr>),
                next_ref := Suc (next_ref s),
                backgroundJobs := (backgroundJobs s)(take 8 (drop 2 random36) \<mapsto> next_ref s)\<rparr>)
       \<and> (2 < length random36 \<longrightarrow> take 8 (drop 2 random36) \<noteq> [])"
  using assms
  by (simp add: execute_def execute_background_eq generateJobId_eq new_job_def nullish_def)

theorem C7_background_execute_result_witness:
  "background \<lparr>command = ''echo bg'', timeout = None, background = Some True\<rparr> = Some True
   \<and> execute init_server \<lparr>command = ''echo bg'', timeout = None, background = Some True\<rparr>
        ''0.4fzyo82mvyr'' \<lparr>child_pid = Some 4242\<rparr> 7 =
           Background \<lparr>jobId = ''4fzyo82m'', pid = 4242\<rparr>
             (init_server\<lparr>heap := (heap init_server)(0 :=
                    \<lparr>process = \<lparr>child_pid = Some 4242\<rparr>, stdout = [], stderr = [],
                     exitCode = None, startedAt = 7\<rparr>),
                next_ref := Suc 0,
                backgroundJobs := [''4fzyo82m'' \<mapsto> 0]\<rparr>)
   \<and> 2 < length ''0.4fzyo82mvyr''"
proof -
  have h: "background \<lparr>command = ''echo bg'', timeout = None, background = Some True\<rparr> = Some True"
    by simp
  show ?thesis
    using h C7_background_execute_result [OF h, of init_server "''0.4fzyo82mvyr''"
        "\<lparr>child_pid = Some 4242\<rparr>" 7]
    by (simp add: init_server_def)
qed

lemma errored_before_deadline:
  assumes o1: "list_all is_output es"
  shows "fg_run (start_foreground t) (es @ [FromChild (ProcessError msg)]) =
     (start_foreground t)\<lparr>
        fg_stdout := stdout_of (child_events es),
        fg_stderr := stderr_of (child_events es),
        timeoutId := None,
        resolved := Some \<lparr>res_stdout = stdout_of (child_events es),
                          res_stderr = stderr_of (child_events es) @ process_error_note msg,
                          res_exitCode = 1\<rparr>\<rparr>"
  by (simp add: fg_run_append fg_run_output [OF o1] start_foreground_def
        fg_on_error_def clearTimeout_def resolve_def)

text \<open>
  What the two \<^verbatim>\<open>error\<close> callbacks record. A foreground call resolves with exitCode 1
  and the error text as stderr, sends no signal, and keeps that result whatever events
  follow. A background call has already returned its \<^verbatim>\<open>{jobId, pid}\<close>; the callback
  only updates the job object (error text appended to stderr, exit code 1), and a status
  call made right then returns that state as an ordinary result.
\<close>

lemma error_callbacks_record:
  "(execute s args random36 child now = Foreground fg \<longrightarrow>
      resolved (fg_run fg (FromChild (ProcessError msg) # later))
        = Some \<lparr>res_stdout = [], res_stderr = process_error_note msg, res_exitCode = 1\<rparr>
      \<and> kills (fg_run fg (FromChild (ProcessError msg) # later)) = [])
   \<and> (execute s args random36 child now = Background res s1 \<longrightarrow>
      backgroundJobs s1 (jobId res) = Some (next_ref s)
      \<and> heap s1 (next_ref s) = new_job child now
      \<and> step s1 (ChildEvent (next_ref s) (ProcessError msg))
          = s1\<lparr>heap := (heap s1)(next_ref s :=
                 (new_job child now)\<lparr>stderr := process_error_note msg, exitCode := Some 1\<rparr>)\<rparr>
      \<and> get_job_status (step s1 (ChildEvent (next_ref s) (ProcessError msg))) (jobId res)
          = (Inr \<lparr>st_stdout = [], st_stderr = process_error_note msg,
                  st_exitCode = Some 1, st_running = False\<rparr>,
             (step s1 (ChildEvent (next_ref s) (ProcessError msg)))
               \<lparr>backgroundJobs := (backgroundJobs s1)(jobId res := None)\<rparr>))"
proof (intro conjI impI)
  assume fgd: "execute s args random36 child now = Foreground fg"
  define t where "t = nullish (timeout args) DEFAULT_TIMEOUT"
  have fg: "fg = start_foreground t"
    using fgd unfolding t_def by (rule execute_Foreground)
  define c where "c = fg_run fg [FromChild (ProcessError msg)]"
  have c: "c = (start_foreground t)\<lparr>timeoutId := None,
        resolved := Some \<lparr>res_stdout = [], res_stderr = process_error_note msg,
                          res_exitCode = 1\<rparr>\<rparr>"
    unfolding c_def fg using errored_before_deadline [of "[]" t msg]
    by (simp add: start_foreground_def)
  have run: "fg_run fg (FromChild (ProcessError msg) # later) = fg_run c later"
    unfolding c_def by simp
  have t0: "timeoutId c = None" and g0: "graceTimer c = None" and k0: "kills c = []"
    and r0: "resolved c = Some \<lparr>res_stdout = [], res_stderr = process_error_note msg,
                          res_exitCode = 1\<rparr>"
    by (simp_all add: c start_foreground_def)
  show "resolved (fg_run fg (FromChild (ProcessError msg) # later))
        = Some \<lparr>res_stdout = [], res_stderr = process_error_note msg, res_exitCode = 1\<rparr>"
    unfolding run by (rule resolved_run [OF r0])
  show "kills (fg_run fg (FromChild (ProcessError msg) # later)) = []"
    unfolding run using no_timer_run [OF t0 g0, of later] k0 by simp
next
  assume bgd: "execute s args random36 child now = Background res s1"
  then have res: "res = \<lparr>jobId = generateJobId random36, pid = nullish (child_pid child) 0\<rparr>"
    and s1: "s1 = s\<lparr>heap := (heap s)(next_ref s := new_job child now),
                    next_ref := Suc (next_ref s),
                    backgroundJobs := (backgroundJobs s)(generateJobId random36 \<mapsto> next_ref s)\<rparr>"
    by (simp_all add: execute_def execute_background_eq split: if_splits)
  show "backgroundJobs s1 (jobId res) = Some (next_ref s)"
    by (simp add: res s1)
  show "heap s1 (next_ref s) = new_job child now"
    by (simp add: s1)
  show st: "step s1 (ChildEvent (next_ref s) (ProcessError msg))
          = s1\<lparr>heap := (heap s1)(next_ref s :=
                 (new_job child now)\<lparr>stderr := process_error_note msg, exitCode := Some 1\<rparr>)\<rparr>"
    by (simp add: s1 on_error_def new_job_def)
  show "get_job_status (step s1 (ChildEvent (next_ref s) (ProcessError msg))) (jobId res)
          = (Inr \<lparr>st_stdout = [], st_stderr = process_error_note msg,
                  st_exitCode = Some 1, st_running = False\<rparr>,
             (step s1 (ChildEvent (next_ref s) (ProcessError msg)))
               \<lparr>backgroundJobs := (backgroundJobs s1)(jobId res := None)\<rparr>)"
    unfolding st by (simp add: get_job_status_def Let_def res s1 new_job_def)
qed

text \<open>
  C8: when the shell cannot be spawned, the child emits \<^verbatim>\<open>error\<close> and then \<^verbatim>\<open>close\<close>
  with the negative error number as its code (-2 for a shell that is not found). The
  foreground call resolves at the \<^verbatim>\<open>error\<close> event with exitCode 1 and the error text
  in stderr, and the later \<^verbatim>\<open>close\<close> cannot change that. In the background job the
  \<^verbatim>\<open>error\<close> callback records exit code 1 and the error text, but the \<^verbatim>\<open>close\<close> callback
  that follows stores its own code over it: the status read returns exit code -2, not 1.
\<close>

theorem C8_background_close_overwrites_exit_code:
  "resolved (fg_run (start_foreground 5000)
        [FromChild (ProcessError ''spawn bash ENOENT''), FromChild (Close (Some (- 2)))])
       = Some \<lparr>res_stdout = [], res_stderr = CHR 0x0A # ''Process error: spawn bash ENOENT'',
               res_exitCode = 1\<rparr>
   \<and> fst (get_job_status
        (run_actions init_server
          [ExecuteBackground ''0.4fzyo82mvyr'' \<lparr>child_pid = None\<rparr> 0,
           ChildEvent 0 (ProcessError ''spawn bash ENOENT'')])
        ''4fzyo82m'')
       = Inr \<lparr>st_stdout = [], st_stderr = CHR 0x0A # ''Process error: spawn bash ENOENT'',
               st_exitCode = Some 1, st_running = False\<rparr>
   \<and> fst (get_job_status
        (run_actions init_server
          [ExecuteBackground ''0.4fzyo82mvyr'' \<lparr>child_pid = None\<rparr> 0,
           ChildEvent 0 (ProcessError ''spawn bash ENOENT''),
           ChildEvent 0 (Close (Some (- 2)))])
        ''4fzyo82m'')
       = Inr \<lparr>st_stdout = [], st_stderr = CHR 0x0A # ''Process error: spawn bash ENOENT'',
               st_exitCode = Some (- 2), st_running = False\<rparr>"
  by (simp add: start_foreground_def fg_on_error_def fg_on_close_def clearTimeout_def
        resolve_def process_error_note_def newline_def init_server_def execute_background_eq
        generateJobId_eq get_job_status_def on_error_def on_close_def new_job_def)

lemma job_event_data:
  "is_data e \<Longrightarrow> exitCode (job_event j e) = exitCode j"
  by (cases e) (simp_all add: on_stdout_data_def on_stderr_data_def)

lemma job_event_end:
  "\<not> is_data e \<Longrightarrow> exitCode (job_event j e) \<noteq> None"
  by (cases e) (simp_all add: on_close_def on_error_def)

lemma job_event_present:
  "exitCode j \<noteq> None \<Longrightarrow> exitCode (job_event j e) \<noteq> None"
  by (cases e) (simp_all add: on_stdout_data_def on_stderr_data_def on_close_def on_error_def)

lemma job_events_present:
  "exitCode j \<noteq> None \<Longrightarrow> exitCode (job_events j es) \<noteq> None"
proof (induction es arbitrary: j)
  case Nil
  then show ?case by simp
next
  case (Cons e es)
  from Cons.prems have "exitCode (job_event j e) \<noteq> None"
    by (rule job_event_present)
  then have "exitCode (job_events (job_event j e) es) \<noteq> None"
    by (rule Cons.IH)
  then show ?case by simp
qed

lemma job_events_data:
  "list_all is_data es \<Longrightarrow> exitCode (job_events j es) = exitCode j"
  by (induction es arbitrary: j) (simp_all add: job_event_data)

lemma exit_sets_present:
  "exitCode j \<noteq> None \<Longrightarrow> exit_sets j es = 0"
proof (induction es arbitrary: j)
  case Nil
  then show ?case by simp
next
  case (Cons e es)
  from Cons.prems have "exitCode (job_event j e) \<noteq> None"
    by (rule job_event_present)
  then have "exit_sets (job_event j e) es = 0"
    by (rule Cons.IH)
  then show ?case
    using Cons.prems by simp
qed

lemma exit_sets_absent:
  "exitCode j = None \<Longrightarrow> exit_sets j es = (if list_all is_data es then 0 else 1)"
proof (induction es arbitrary: j)
  case Nil
  then show ?case by simp
next
  case (Cons e es)
  show ?case
  proof (cases "is_data e")
    case True
    then have "exitCode (job_event j e) = None"
      using Cons.prems by (simp add: job_event_data)
    then show ?thesis
      using Cons.IH [of "job_event j e"] True by simp
  next
    case False
    then have "exitCode (job_event j e) \<noteq> None"
      by (rule job_event_end)
    then show ?thesis
      using False Cons.prems exit_sets_present [of "job_event j e" es] by simp
  qed
qed

lemma close_keeps_output:
  "list_all is_close es \<Longrightarrow>
   stdout (job_events j es) = stdout j \<and> stderr (job_events j es) = stderr j"
proof (induction es arbitrary: j)
  case Nil
  then show ?case by simp
next
  case (Cons e es)
  then obtain code where "e = Close code"
    by (cases e) simp_all
  then show ?case
    using Cons by (simp add: on_close_def)
qed

lemma emitter_order_tail:
  "emitter_order (xs @ ys) \<Longrightarrow> \<not> list_all is_data xs \<Longrightarrow> list_all is_close ys"
  by (induction xs) (auto split: if_splits)

text \<open>
  C4: over the events of a job from its creation, the exit code goes from absent to present
  at exactly one step when the events contain a \<^verbatim>\<open>close\<close> or an \<^verbatim>\<open>error\<close> (and at none
  while there is only output); once present it is present after every further event; and,
  when the events come in the order the runtime emits them, stdout and stderr are the
  same after every further event as they were when the exit code became present.
\<close>

theorem C4_exit_code_set_once:
  "exit_sets (new_job child now) es = (if list_all is_data es then 0 else 1)
   \<and> (exitCode (job_events job xs) \<noteq> None \<longrightarrow> exitCode (job_events job (xs @ ys)) \<noteq> None)
   \<and> (emitter_order (xs @ ys) \<longrightarrow> exitCode (job_events (new_job child now) xs) \<noteq> None \<longrightarrow>
        stdout (job_events (new_job child now) (xs @ ys)) = stdout (job_events (new_job child now) xs)
      \<and> stderr (job_events (new_job child now) (xs @ ys)) = stderr (job_events (new_job child now) xs))"
proof (intro conjI impI)
  have fresh: "exitCode (new_job child now) = None"
    by (simp add: new_job_def)
  show "exit_sets (new_job child now) es = (if list_all is_data es then 0 else 1)"
    using fresh by (rule exit_sets_absent)
  show "exitCode (job_events job (xs @ ys)) \<noteq> None" if "exitCode (job_events job xs) \<noteq> None"
    unfolding job_events_append using that by (rule job_events_present)
  assume ord: "emitter_order (xs @ ys)"
    and ended: "exitCode (job_events (new_job child now) xs) \<noteq> None"
  have "\<not> list_all is_data xs"
    using ended fresh job_events_data [of xs "new_job child now"] by auto
  with ord have "list_all is_close ys"
    by (rule emitter_order_tail)
  then show "stdout (job_events (new_job child now) (xs @ ys)) = stdout (job_events (new_job child now) xs)"
    and "stderr (job_events (new_job child now) (xs @ ys)) = stderr (job_events (new_job child now) xs)"
    unfolding job_events_append by (simp_all add: close_keeps_output)
qed

theorem C4_exit_code_set_once_witness:
  "exit_sets (new_job \<lparr>child_pid = Some 4242\<rparr> 0)
       [StdoutData ''a'', Close (Some 0)] = 1
   \<and> emitter_order ([ProcessError ''spawn bash ENOENT''] @ [Close (Some (- 2))])
   \<and> exitCode (job_events (new_job \<lparr>child_pid = None\<rparr> 0) [ProcessError ''spawn bash ENOENT''])
       = Some 1
   \<and> exitCode (job_events (new_job \<lparr>child_pid = None\<rparr> 0)
        ([ProcessError ''spawn bash ENOENT''] @ [Close (Some (- 2))])) \<noteq> None
   \<and> stderr (job_events (new_job \<lparr>child_pid = None\<rparr> 0)
        ([ProcessError ''spawn bash ENOENT''] @ [Close (Some (- 2))]))
       = stderr (job_events (new_job \<lparr>child_pid = None\<rparr> 0) [ProcessError ''spawn bash ENOENT''])"
proof -
  have h1: "emitter_order ([ProcessError ''spawn bash ENOENT''] @ [Close (Some (- 2))])"
    by simp
  have h2: "exitCode (job_events (new_job \<lparr>child_pid = None\<rparr> 0) [ProcessError ''spawn bash ENOENT''])
       = Some 1"
    by (simp add: on_error_def)
  have h3: "exitCode (job_events (new_job \<lparr>child_pid = None\<rparr> 0) [ProcessError ''spawn bash ENOENT''])
       \<noteq> None"
    unfolding h2 by simp
  have e: "exit_sets (new_job \<lparr>child_pid = Some 4242\<rparr> 0) [StdoutData ''a'', Close (Some 0)] = 1"
    using C4_exit_code_set_once [of "\<lparr>child_pid = Some 4242\<rparr>" 0 "[StdoutData ''a'', Close (Some 0)]"]
    by simp
  show ?thesis
    using h1 h2 h3 e
      C4_exit_code_set_once [of "\<lparr>child_pid = None\<rparr>" 0 "[]" "new_job \<lparr>child_pid = None\<rparr> 0"
        "[ProcessError ''spawn bash ENOENT'']" "[Close (Some (- 2))]"]
    by blast
qed

text \<open>
  C10: a background job whose \<^verbatim>\<open>close\<close> event carries a null exit code (the process was
  ended by a signal) records the exit code 1, the value the \<^verbatim>\<open>error\<close> callback records
  too; the job is then the very job that a command exiting with status 1 leaves, so the
  status result cannot tell the two apart.
\<close>

theorem C10_null_close_code_is_one:
  "exitCode (on_close job None) = Some 1
   \<and> exitCode (on_close job None) = exitCode (on_error job msg)
   \<and> on_close job None = on_close job (Some 1)
   \<and> get_job_status (step s (ChildEvent r (Close None))) jid
     = get_job_status (step s (ChildEvent r (Close (Some 1)))) jid"
  by (simp add: on_close_def on_error_def)

end
